theory Spec2Isabelle
  imports Complex_Main "HOL-Library.Sublist"
begin

section \<open>The timeline parser (NoribenParser.parse_csv_timeline)\<close>

text \<open>
  The timeline file is read through \<^verbatim>\<open>csv.reader\<close>. The loop
  \<^verbatim>\<open>for row in reader\<close> receives, record after record, either a row (a list of
  strings) or an exception raised by the reader (\<^verbatim>\<open>csv.Error\<close>, for instance a
  field longer than the reader's field limit). The file is therefore a list of items, each
  a row or a reader error. An item after a reader error is a record of the file that the
  loop never gets to see.
\<close>

datatype csv_item = Row "string list" | Csv_error

text \<open>The four kinds of event dictionaries. A key that the code sets only under a
  condition is an optional field.\<close>

record process_event =
  pe_timestamp :: string
  pe_process_name :: string
  pe_pid :: string
  pe_command_line :: string
  pe_child_pid :: string

record file_event =
  fe_timestamp :: string
  fe_operation :: string
  fe_process_name :: string
  fe_pid :: string
  fe_path :: string
  fe_hash_type :: "string option"
  fe_hash :: "string option"
  fe_yara_hits :: "string option"
  fe_vt_hits :: "string option"
  fe_to_path :: "string option"

record registry_event =
  re_timestamp :: string
  re_operation :: string
  re_process_name :: string
  re_pid :: string
  re_path :: string
  re_data :: string

record network_event =
  ne_timestamp :: string
  ne_protocol :: string
  ne_direction :: string
  ne_process_name :: string
  ne_pid :: string
  ne_remote_addr :: string

record events =
  process_activity :: "process_event list"
  file_system :: "file_event list"
  registry :: "registry_event list"
  network :: "network_event list"

definition empty_events :: events where
  "empty_events = \<lparr>process_activity = [], file_system = [], registry = [], network = []\<rparr>"

text \<open>\<^verbatim>\<open>row[i] if len(row) > i else ""\<close>\<close>

definition col :: "string list \<Rightarrow> nat \<Rightarrow> string" where
  "col row i = (if length row > i then row ! i else [])"

text \<open>\<^verbatim>\<open>if len(row) > i: event[key] = row[i] if row[i] else ""\<close>: the key is
  set only for a row that has the column.\<close>

definition opt_col :: "string list \<Rightarrow> nat \<Rightarrow> string option" where
  "opt_col row i = (if length row > i then Some (if row ! i \<noteq> [] then row ! i else []) else None)"

text \<open>\<^verbatim>\<open>operation.split(' ', 1)\<close>, called only when the operation contains a space.\<close>

definition split_space1 :: "string \<Rightarrow> string list" where
  "split_space1 s =
     (if CHR '' '' \<in> set s
      then [takeWhile (\<lambda>c. c \<noteq> CHR '' '') s, tl (dropWhile (\<lambda>c. c \<noteq> CHR '' '') s)]
      else [s])"

definition process_event_of :: "string list \<Rightarrow> process_event" where
  "process_event_of row =
     \<lparr>pe_timestamp = row ! 0,
      pe_process_name = col row 3,
      pe_pid = col row 4,
      pe_command_line = col row 5,
      pe_child_pid = col row 6\<rparr>"

definition file_event_of :: "string list \<Rightarrow> file_event" where
  "file_event_of row =
     (let event = \<lparr>fe_timestamp = row ! 0,
                   fe_operation = row ! 2,
                   fe_process_name = col row 3,
                   fe_pid = col row 4,
                   fe_path = col row 5,
                   fe_hash_type = opt_col row 6,
                   fe_hash = opt_col row 7,
                   fe_yara_hits = opt_col row 8,
                   fe_vt_hits = opt_col row 9,
                   fe_to_path = None\<rparr>
      in if row ! 2 = ''RenameFile'' \<and> length row > 6
         then event\<lparr>fe_to_path := Some (row ! 6)\<rparr>
         else event)"

definition registry_event_of :: "string list \<Rightarrow> registry_event" where
  "registry_event_of row =
     \<lparr>re_timestamp = row ! 0,
      re_operation = row ! 2,
      re_process_name = col row 3,
      re_pid = col row 4,
      re_path = col row 5,
      re_data = col row 6\<rparr>"

definition network_event_of :: "string list \<Rightarrow> network_event" where
  "network_event_of row =
     (let operation = row ! 2;
          parts = split_space1 operation;
          protocol = (if CHR '' '' \<in> set operation then parts ! 0 else operation);
          direction = (if CHR '' '' \<in> set operation
                       then (if length parts > 1 then parts ! 1 else ''Unknown'')
                       else ''Unknown'')
      in \<lparr>ne_timestamp = row ! 0,
          ne_protocol = protocol,
          ne_direction = direction,
          ne_process_name = col row 3,
          ne_pid = col row 4,
          ne_remote_addr = col row 5\<rparr>)"

text \<open>The body of the loop for one row: a row of fewer than 3 fields is passed over
  (\<^verbatim>\<open>continue\<close>), a row of an unknown category changes nothing.\<close>

definition handle_row :: "events \<Rightarrow> string list \<Rightarrow> events" where
  "handle_row ev row =
     (if length row < 3 then ev
      else if row ! 1 = ''Process''
        then ev\<lparr>process_activity := process_activity ev @ [process_event_of row]\<rparr>
      else if row ! 1 = ''File''
        then ev\<lparr>file_system := file_system ev @ [file_event_of row]\<rparr>
      else if row ! 1 = ''Registry''
        then ev\<lparr>registry := registry ev @ [registry_event_of row]\<rparr>
      else if row ! 1 = ''Network''
        then ev\<lparr>network := network ev @ [network_event_of row]\<rparr>
      else ev)"

text \<open>The loop. The whole loop is inside one \<^verbatim>\<open>try\<close>; its handler logs and
  returns the events gathered so far.\<close>

fun timeline_loop :: "events \<Rightarrow> csv_item list \<Rightarrow> events" where
  "timeline_loop ev [] = ev"
| "timeline_loop ev (Csv_error # rest) = ev"
| "timeline_loop ev (Row row # rest) = timeline_loop (handle_row ev row) rest"

text \<open>\<^verbatim>\<open>parse_csv_timeline(filepath)\<close>: \<open>None\<close> is a file that \<^verbatim>\<open>open\<close>
  cannot open, which the same handler turns into the four empty lists.\<close>

definition parse_csv_timeline :: "csv_item list option \<Rightarrow> events" where
  "parse_csv_timeline f =
     (case f of None \<Rightarrow> empty_events | Some items \<Rightarrow> timeline_loop empty_events items)"

text \<open>The rows that the reader hands to the loop: those before the first reader error.\<close>

fun rows_read :: "csv_item list \<Rightarrow> string list list" where
  "rows_read [] = []"
| "rows_read (Csv_error # rest) = []"
| "rows_read (Row row # rest) = row # rows_read rest"

text \<open>All the rows of the file, reader errors left out.\<close>

fun all_rows :: "csv_item list \<Rightarrow> string list list" where
  "all_rows [] = []"
| "all_rows (Csv_error # rest) = all_rows rest"
| "all_rows (Row row # rest) = row # all_rows rest"

definition in_category :: "string \<Rightarrow> string list \<Rightarrow> bool" where
  "in_category c row = (3 \<le> length row \<and> row ! 1 = c)"

text \<open>What the specification says of a row that is kept, written without reference to the
  code: the missing trailing fields of a row read as the empty string, so the row is padded
  with empty strings up to the ten columns of the widest layout and the fields are read off
  the padded row; an optional field of a file event is set only when the row has the column.\<close>

definition padded :: "string list \<Rightarrow> string list" where
  "padded row = row @ replicate (10 - length row) []"

definition column :: "string list \<Rightarrow> nat \<Rightarrow> string option" where
  "column row i = (if i < length row then Some (row ! i) else None)"

text \<open>The combined field of a network row, split on its first space: the part before the
  space, and the part after it when there is a space.\<close>

fun split_first_space :: "string \<Rightarrow> string \<times> string option" where
  "split_first_space [] = ([], None)"
| "split_first_space (c # cs) =
     (if c = CHR '' '' then ([], Some cs)
      else (c # fst (split_first_space cs), snd (split_first_space cs)))"

definition spec_process_event :: "string list \<Rightarrow> process_event" where
  "spec_process_event row =
     \<lparr>pe_timestamp = padded row ! 0,
      pe_process_name = padded row ! 3,
      pe_pid = padded row ! 4,
      pe_command_line = padded row ! 5,
      pe_child_pid = padded row ! 6\<rparr>"

definition spec_file_event :: "string list \<Rightarrow> file_event" where
  "spec_file_event row =
     \<lparr>fe_timestamp = padded row ! 0,
      fe_operation = padded row ! 2,
      fe_process_name = padded row ! 3,
      fe_pid = padded row ! 4,
      fe_path = padded row ! 5,
      fe_hash_type = column row 6,
      fe_hash = column row 7,
      fe_yara_hits = column row 8,
      fe_vt_hits = column row 9,
      fe_to_path = (if padded row ! 2 = ''RenameFile'' then column row 6 else None)\<rparr>"

definition spec_registry_event :: "string list \<Rightarrow> registry_event" where
  "spec_registry_event row =
     \<lparr>re_timestamp = padded row ! 0,
      re_operation = padded row ! 2,
      re_process_name = padded row ! 3,
      re_pid = padded row ! 4,
      re_path = padded row ! 5,
      re_data = padded row ! 6\<rparr>"

definition spec_network_event :: "string list \<Rightarrow> network_event" where
  "spec_network_event row =
     \<lparr>ne_timestamp = padded row ! 0,
      ne_protocol = fst (split_first_space (padded row ! 2)),
      ne_direction = (case snd (split_first_space (padded row ! 2)) of
                        Some d \<Rightarrow> d | None \<Rightarrow> ''Unknown''),
      ne_process_name = padded row ! 3,
      ne_pid = padded row ! 4,
      ne_remote_addr = padded row ! 5\<rparr>"

text \<open>A timeline of one row of each category and a row of two fields, used as an example.\<close>

definition example_rows :: "string list list" where
  "example_rows =
     [[''t1'', ''Process'', ''CreateProcess'', ''a.exe''],
      [''t2'', ''Process''],
      [''t3'', ''Registry'', ''RegSetValue''],
      [''t4'', ''File'', ''CreateFile'', ''a.exe'', ''7'', ''C:/a.txt''],
      [''t5'', ''Network'', ''TCP Send'', ''a.exe'', ''7'', ''10.0.0.1:80''],
      [''t6'', ''Network'', ''UDP''],
      [''t7'', ''Process'', ''CreateProcess'', ''b.exe'', ''8'', ''b.exe /q'', ''9''],
      [''t8'', ''File'', ''RenameFile'', ''a.exe'', ''7'', ''C:/a.txt'', ''C:/b.txt'', ''h'']]"

section \<open>The summary parser (NoribenParser.parse_txt_report)\<close>



















section \<open>Configuration and subprocesses\<close>

text \<open>The module-level configuration, read once from the environment.\<close>

record config =
  NORIBEN_PATH :: string
  PYTHON_PATH :: string
  ANALYSIS_TIMEOUT :: int
  WORK_DIR :: string
  UNZIP_TOOL :: string
  UNZIP_PATH :: string

text \<open>
  What an external program does when it is started with a command line: it exits by itself
  after some time with a return code and its two output streams, which are text in the
  encoding of the locale (\<open>Exits\<close>) or bytes that this encoding cannot decode
  (\<open>Exits_undecodable\<close>); or it never exits; or it cannot be started at all. Time is counted
  in whole units.
\<close>

datatype proc_behaviour =
    Exits nat int string string
  | Exits_undecodable nat int string string
  | Hangs
  | Launch_error string

text \<open>What \<^verbatim>\<open>subprocess.run\<close> gives back: a completed process, or one of its
  exceptions.\<close>

datatype run_result =
    Completed int string string
  | TimeoutExpired
  | OSError string
  | UnicodeDecodeError

datatype proc_event =
    Spawned "string list"
  | Spawn_failed "string list"
  | Exited "string list" int
  | Killed "string list"

text \<open>
  \<^verbatim>\<open>subprocess.run(cmd, timeout=t, text=...)\<close>: the child is started and waited for; if
  it has not exited when the timeout expires, it is killed and \<^verbatim>\<open>TimeoutExpired\<close> is
  raised. With \<^verbatim>\<open>text=True\<close> the output of a child that has exited is decoded, which
  raises \<^verbatim>\<open>UnicodeDecodeError\<close> on bytes that cannot be decoded; without it the output
  stays as bytes. The second component records what happened to the child.
\<close>

definition subprocess_run ::
  "(string list \<Rightarrow> proc_behaviour) \<Rightarrow> string list \<Rightarrow> int \<Rightarrow> bool \<Rightarrow>
   run_result \<times> proc_event list" where
  "subprocess_run tool cmd timeout text_mode =
     (case tool cmd of
        Launch_error e \<Rightarrow> (OSError e, [Spawn_failed cmd])
      | Hangs \<Rightarrow> (TimeoutExpired, [Spawned cmd, Killed cmd])
      | Exits d rc out err \<Rightarrow>
          if int d \<le> timeout then (Completed rc out err, [Spawned cmd, Exited cmd rc])
          else (TimeoutExpired, [Spawned cmd, Killed cmd])
      | Exits_undecodable d rc out err \<Rightarrow>
          if int d \<le> timeout
          then (if text_mode then (UnicodeDecodeError, [Spawned cmd, Exited cmd rc])
                else (Completed rc out err, [Spawned cmd, Exited cmd rc]))
          else (TimeoutExpired, [Spawned cmd, Killed cmd]))"

text \<open>The command lines that were handed to \<^verbatim>\<open>subprocess.run\<close>, in order.\<close>

definition invoked :: "proc_event list \<Rightarrow> string list list" where
  "invoked trace =
     concat (map (\<lambda>e. case e of Spawned cmd \<Rightarrow> [cmd] | Spawn_failed cmd \<Rightarrow> [cmd] | _ \<Rightarrow> []) trace)"

section \<open>The extraction backends\<close>

text \<open>\<^verbatim>\<open>if password:\<close> on an optional string: neither \<^verbatim>\<open>None\<close> nor empty.\<close>

definition truthy :: "string option \<Rightarrow> bool" where
  "truthy password = (case password of None \<Rightarrow> False | Some p \<Rightarrow> p \<noteq> [])"

definition common_passwords :: "string list" where
  "common_passwords = [''infected'', ''malware'', ''virus'', ''password'']"

text \<open>The command lines of the 7z backend: the first one, and the one of the retry loop.\<close>

definition cmd_7z :: "config \<Rightarrow> string \<Rightarrow> string \<Rightarrow> string option \<Rightarrow> string list" where
  "cmd_7z cfg zip_path extract_dir password =
     [UNZIP_PATH cfg, ''x'', zip_path, ''-o'' @ extract_dir, ''-y'']
     @ [if truthy password then ''-p'' @ the password else ''-p'']"

definition cmd_with_pwd_7z :: "config \<Rightarrow> string \<Rightarrow> string \<Rightarrow> string \<Rightarrow> string list" where
  "cmd_with_pwd_7z cfg zip_path extract_dir pwd =
     [UNZIP_PATH cfg, ''x'', zip_path, ''-o'' @ extract_dir, ''-y'', ''-p'' @ pwd]"

text \<open>
  The loop over the common passwords; its calls of \<^verbatim>\<open>subprocess.run\<close> do not ask for
  text. An exception of \<^verbatim>\<open>subprocess.run\<close> leaves the loop for the handler of the
  function, which returns \<^verbatim>\<open>False\<close>.
\<close>

fun loop_7z ::
  "config \<Rightarrow> (string list \<Rightarrow> proc_behaviour) \<Rightarrow> string \<Rightarrow> string \<Rightarrow> string list \<Rightarrow>
   proc_event list \<Rightarrow> bool \<times> proc_event list" where
  "loop_7z cfg tool zip_path extract_dir [] trace = (False, trace)"
| "loop_7z cfg tool zip_path extract_dir (pwd # pwds) trace =
     (case subprocess_run tool (cmd_with_pwd_7z cfg zip_path extract_dir pwd) 30 False of
        (Completed rc out err, evs) \<Rightarrow>
          if rc = 0 then (True, trace @ evs)
          else loop_7z cfg tool zip_path extract_dir pwds (trace @ evs)
      | (TimeoutExpired, evs) \<Rightarrow> (False, trace @ evs)
      | (OSError e, evs) \<Rightarrow> (False, trace @ evs)
      | (UnicodeDecodeError, evs) \<Rightarrow> (False, trace @ evs))"

text \<open>\<^verbatim>\<open>_extract_with_7z\<close>: the result and the processes it ran. The first call of
  \<^verbatim>\<open>subprocess.run\<close> has \<^verbatim>\<open>text=True\<close>.\<close>

definition extract_with_7z ::
  "config \<Rightarrow> (string list \<Rightarrow> proc_behaviour) \<Rightarrow> string \<Rightarrow> string \<Rightarrow> string option \<Rightarrow>
   bool \<times> proc_event list" where
  "extract_with_7z cfg tool zip_path extract_dir password =
     (case subprocess_run tool (cmd_7z cfg zip_path extract_dir password) 30 True of
        (Completed rc out err, evs) \<Rightarrow>
          if rc = 0 then (True, evs)
          else if \<not> truthy password
            then loop_7z cfg tool zip_path extract_dir common_passwords evs
          else (False, evs)
      | (TimeoutExpired, evs) \<Rightarrow> (False, evs)
      | (OSError e, evs) \<Rightarrow> (False, evs)
      | (UnicodeDecodeError, evs) \<Rightarrow> (False, evs))"

text \<open>The command lines of the unzip backend.\<close>

definition cmd_unzip :: "config \<Rightarrow> string \<Rightarrow> string \<Rightarrow> string option \<Rightarrow> string list" where
  "cmd_unzip cfg zip_path extract_dir password =
     [UNZIP_PATH cfg, ''-o'', zip_path, ''-d'', extract_dir]
     @ (if truthy password then [''-P'', the password] else [])"

definition cmd_with_pwd_unzip :: "config \<Rightarrow> string \<Rightarrow> string \<Rightarrow> string \<Rightarrow> string list" where
  "cmd_with_pwd_unzip cfg zip_path extract_dir pwd =
     [UNZIP_PATH cfg, ''-o'', zip_path, ''-d'', extract_dir, ''-P'', pwd]"

fun loop_unzip ::
  "config \<Rightarrow> (string list \<Rightarrow> proc_behaviour) \<Rightarrow> string \<Rightarrow> string \<Rightarrow> string list \<Rightarrow>
   proc_event list \<Rightarrow> bool \<times> proc_event list" where
  "loop_unzip cfg tool zip_path extract_dir [] trace = (False, trace)"
| "loop_unzip cfg tool zip_path extract_dir (pwd # pwds) trace =
     (case subprocess_run tool (cmd_with_pwd_unzip cfg zip_path extract_dir pwd) 30 False of
        (Completed rc out err, evs) \<Rightarrow>
          if rc = 0 then (True, trace @ evs)
          else loop_unzip cfg tool zip_path extract_dir pwds (trace @ evs)
      | (TimeoutExpired, evs) \<Rightarrow> (False, trace @ evs)
      | (OSError e, evs) \<Rightarrow> (False, trace @ evs)
      | (UnicodeDecodeError, evs) \<Rightarrow> (False, trace @ evs))"

text \<open>\<^verbatim>\<open>_extract_with_unzip\<close>, built like the 7z backend: \<^verbatim>\<open>text=True\<close> on the
  first call only.\<close>

definition extract_with_unzip ::
  "config \<Rightarrow> (string list \<Rightarrow> proc_behaviour) \<Rightarrow> string \<Rightarrow> string \<Rightarrow> string option \<Rightarrow>
   bool \<times> proc_event list" where
  "extract_with_unzip cfg tool zip_path extract_dir password =
     (case subprocess_run tool (cmd_unzip cfg zip_path extract_dir password) 30 True of
        (Completed rc out err, evs) \<Rightarrow>
          if rc = 0 then (True, evs)
          else if \<not> truthy password
            then loop_unzip cfg tool zip_path extract_dir common_passwords evs
          else (False, evs)
      | (TimeoutExpired, evs) \<Rightarrow> (False, evs)
      | (OSError e, evs) \<Rightarrow> (False, evs)
      | (UnicodeDecodeError, evs) \<Rightarrow> (False, evs))"

text \<open>
  The in-process backend. An archive opened with \<^verbatim>\<open>zipfile.ZipFile\<close> either cannot be
  opened, or answers \<^verbatim>\<open>extractall\<close> with a given password (\<open>None\<close> for the call without
  \<^verbatim>\<open>pwd\<close>) after some time by returning, by raising \<^verbatim>\<open>RuntimeError\<close> (a missing or
  wrong password), or by raising another exception.
\<close>

datatype extract_outcome = Extracted | Runtime_error | Other_error

record zip_archive =
  zip_opens :: bool
  extractall :: "string option \<Rightarrow> nat \<times> extract_outcome"

text \<open>The loop over the common passwords: \<^verbatim>\<open>RuntimeError\<close> is caught in the loop
  (\<^verbatim>\<open>continue\<close>), any other exception goes to the handler of the function.\<close>

fun loop_python :: "zip_archive \<Rightarrow> string list \<Rightarrow> string option list \<Rightarrow> bool \<times> string option list" where
  "loop_python zip_ref [] tried = (False, tried)"
| "loop_python zip_ref (pwd # pwds) tried =
     (case snd (extractall zip_ref (Some pwd)) of
        Extracted \<Rightarrow> (True, tried @ [Some pwd])
      | Runtime_error \<Rightarrow> loop_python zip_ref pwds (tried @ [Some pwd])
      | Other_error \<Rightarrow> (False, tried @ [Some pwd]))"

text \<open>\<^verbatim>\<open>_extract_with_python\<close>: the result and the passwords given to
  \<^verbatim>\<open>extractall\<close>, in order. No call carries a timeout.\<close>

definition extract_with_python :: "zip_archive \<Rightarrow> string option \<Rightarrow> bool \<times> string option list" where
  "extract_with_python zip_ref password =
     (if \<not> zip_opens zip_ref then (False, [])
      else if truthy password then
        (case snd (extractall zip_ref password) of
           Extracted \<Rightarrow> (True, [password])
         | Runtime_error \<Rightarrow> (False, [password])
         | Other_error \<Rightarrow> (False, [password]))
      else
        (case snd (extractall zip_ref None) of
           Extracted \<Rightarrow> (True, [None])
         | Runtime_error \<Rightarrow> loop_python zip_ref common_passwords [None]
         | Other_error \<Rightarrow> (False, [None])))"

text \<open>
  The password policy in the words of the specification, to compare the backends with: the
  passwords to try (the supplied one alone, or no password followed by the fixed list), and
  trying them in order up to the first success, an attempt either succeeding or failing.
\<close>

definition spec_policy :: "string option \<Rightarrow> string option list" where
  "spec_policy password =
     (if truthy password then [password]
      else [None, Some ''infected'', Some ''malware'', Some ''virus'', Some ''password''])"

fun spec_try_in_order :: "('p \<Rightarrow> bool) \<Rightarrow> 'p list \<Rightarrow> bool \<times> 'p list" where
  "spec_try_in_order succeeds [] = (False, [])"
| "spec_try_in_order succeeds (p # ps) =
     (if succeeds p then (True, [p])
      else (case spec_try_in_order succeeds ps of (ok, tried) \<Rightarrow> (ok, p # tried)))"

text \<open>The command line that carries a given password (\<open>None\<close>: the first command line of
  the backend, without password), and whether the extraction program accepts it: it exits
  with return code 0.\<close>

definition invocation_7z :: "config \<Rightarrow> string \<Rightarrow> string \<Rightarrow> string option \<Rightarrow> string list" where
  "invocation_7z cfg zip_path extract_dir a =
     (case a of None \<Rightarrow> cmd_7z cfg zip_path extract_dir None
      | Some pwd \<Rightarrow> cmd_with_pwd_7z cfg zip_path extract_dir pwd)"

definition exits_ok :: "(string list \<Rightarrow> proc_behaviour) \<Rightarrow> string list \<Rightarrow> bool" where
  "exits_ok tool cmd =
     (case tool cmd of Exits d rc out err \<Rightarrow> rc = 0
      | Exits_undecodable d rc out err \<Rightarrow> rc = 0
      | Hangs \<Rightarrow> False
      | Launch_error e \<Rightarrow> False)"

definition accepted_by_7z ::
  "config \<Rightarrow> (string list \<Rightarrow> proc_behaviour) \<Rightarrow> string \<Rightarrow> string \<Rightarrow> string option \<Rightarrow> bool" where
  "accepted_by_7z cfg tool zip_path extract_dir a =
     exits_ok tool (invocation_7z cfg zip_path extract_dir a)"

text \<open>Whether an archive opens with a password (\<open>None\<close>: without one).\<close>

definition opens_with :: "zip_archive \<Rightarrow> string option \<Rightarrow> bool" where
  "opens_with zip_ref a = (snd (extractall zip_ref a) = Extracted)"

text \<open>A program that takes longer than the 30 units of a backend invocation.\<close>

definition exceeds :: "int \<Rightarrow> proc_behaviour \<Rightarrow> bool" where
  "exceeds t b =
     (case b of Exits d rc out err \<Rightarrow> t < int d
      | Exits_undecodable d rc out err \<Rightarrow> t < int d
      | Hangs \<Rightarrow> True
      | Launch_error e \<Rightarrow> False)"

section \<open>extract_zip\<close>

text \<open>
  The surroundings of an extraction: whether the extraction directory can be created, the
  extraction program, the archive as the in-process library sees it, and what the two glob
  calls enumerate in the extraction directory afterwards: the entries directly in it, and
  all the entries below it, each in the order in which the file system yields them. An
  entry is a file or a directory; the glob calls yield both.
\<close>

record extraction_world =
  mkdir_error :: "string \<Rightarrow> string option"
  unzip_program :: "string list \<Rightarrow> proc_behaviour"
  zip_file :: "string \<Rightarrow> zip_archive"
  glob_children :: "string \<Rightarrow> string list"
  glob_descendants :: "string \<Rightarrow> string list"
  is_directory :: "string \<Rightarrow> bool"

datatype log_entry = Log_error string | Log_warning string

text \<open>The six patterns \<^verbatim>\<open>*.exe\<close> to \<^verbatim>\<open>*.ps1\<close>, as the endings they ask for.\<close>

definition executable_exts :: "string list" where
  "executable_exts = [''.exe'', ''.dll'', ''.scr'', ''.bat'', ''.cmd'', ''.ps1'']"

text \<open>\<^verbatim>\<open>glob('*' + ext)\<close> over an enumeration: the entries whose name ends with the
  extension, in enumeration order.\<close>

definition glob_ext :: "string list \<Rightarrow> string \<Rightarrow> string list" where
  "glob_ext entries ext = filter (suffix ext) entries"

text \<open>\<^verbatim>\<open>work_dir / f"{analysis_id}_extracted"\<close>\<close>

definition extract_dir_of :: "config \<Rightarrow> string \<Rightarrow> string" where
  "extract_dir_of cfg analysis_id = WORK_DIR cfg @ ''/'' @ analysis_id @ ''_extracted''"

text \<open>
  \<^verbatim>\<open>extract_zip\<close>: the returned path (\<open>None\<close> for \<^verbatim>\<open>None\<close>) and the error lines
  that \<^verbatim>\<open>extract_zip\<close> itself writes to the log.
\<close>

definition extract_zip ::
  "config \<Rightarrow> extraction_world \<Rightarrow> string \<Rightarrow> string \<Rightarrow> string option \<Rightarrow>
   string option \<times> log_entry list" where
  "extract_zip cfg w zip_path analysis_id password =
     (let extract_dir = extract_dir_of cfg analysis_id in
      case mkdir_error w extract_dir of
        Some e \<Rightarrow> (None, [Log_error (''Failed to extract zip: '' @ e)])
      | None \<Rightarrow>
         (let success =
            (if UNZIP_TOOL cfg = ''7z''
               then fst (extract_with_7z cfg (unzip_program w) zip_path extract_dir password)
             else if UNZIP_TOOL cfg = ''unzip''
               then fst (extract_with_unzip cfg (unzip_program w) zip_path extract_dir password)
             else fst (extract_with_python (zip_file w zip_path) password))
          in if \<not> success then (None, [Log_error ''Failed to extract zip file''])
             else
              (let executables =
                 concat (map (\<lambda>ext. glob_ext (glob_children w extract_dir) ext
                                    @ glob_ext (glob_descendants w extract_dir) ext)
                             executable_exts)
               in if executables = [] then (None, [Log_error ''No executable found in zip''])
                  else (Some (hd executables), []))))"





text \<open>Example surroundings, used to evaluate the definitions on concrete inputs.\<close>

definition example_config :: config where
  "example_config =
     \<lparr>NORIBEN_PATH = ''Noriben.py'', PYTHON_PATH = ''python'', ANALYSIS_TIMEOUT = 300,
      WORK_DIR = ''work'', UNZIP_TOOL = ''python'', UNZIP_PATH = ''7z''\<rparr>"

text \<open>An archive protected by the password \<^verbatim>\<open>infected\<close> on which every call of
  \<^verbatim>\<open>extractall\<close> takes 1000 time units.\<close>

definition slow_archive :: zip_archive where
  "slow_archive =
     \<lparr>zip_opens = True,
      extractall = (\<lambda>a. (1000, if a = Some ''infected'' then Extracted else Runtime_error))\<rparr>"




text \<open>An archive without password that holds a folder named \<^verbatim>\<open>pack.scr\<close> with a
  script in it.\<close>

definition folder_world :: extraction_world where
  "folder_world =
     \<lparr>mkdir_error = (\<lambda>d. None),
      unzip_program = (\<lambda>cmd. Exits 1 0 [] []),
      zip_file = (\<lambda>path. \<lparr>zip_opens = True, extractall = (\<lambda>a. (1, Extracted))\<rparr>),
      glob_children = (\<lambda>d. [d @ ''/pack.scr'']),
      glob_descendants = (\<lambda>d. [d @ ''/pack.scr'', d @ ''/pack.scr/x.cmd'']),
      is_directory = (\<lambda>q. suffix ''/pack.scr'' q)\<rparr>"

text \<open>
  An archive protected by the password \<^verbatim>\<open>password\<close>. \<^verbatim>\<open>extractall\<close> without
  password raises \<^verbatim>\<open>RuntimeError\<close> (password required); the wrong password
  \<^verbatim>\<open>infected\<close> passes the one-byte check of the encryption header, so that the failure
  shows only at the checksum, as \<^verbatim>\<open>BadZipFile\<close>; the other wrong passwords raise
  \<^verbatim>\<open>RuntimeError\<close> (bad password).
\<close>

definition check_byte_archive :: zip_archive where
  "check_byte_archive =
     \<lparr>zip_opens = True,
      extractall = (\<lambda>a. if a = Some ''password'' then (1, Extracted)
                        else if a = Some ''infected'' then (1, Other_error)
                        else (1, Runtime_error))\<rparr>"

text \<open>
  A 7z program on an archive protected by the password \<^verbatim>\<open>infected\<close>: it exits with
  return code 0 on that password, and with return code 2 and a message that the locale
  cannot decode on any other.
\<close>

definition garbled_7z :: "string list \<Rightarrow> proc_behaviour" where
  "garbled_7z cmd =
     (if last cmd = ''-pinfected'' then Exits 1 0 [] []
      else Exits_undecodable 1 2 [] [CHR 0x81])"


section \<open>The file system\<close>

text \<open>
  A file system maps a path to what is there. Paths are strings, taken as already absolute
  (\<^verbatim>\<open>os.path.abspath\<close> is the identity on them), with \<^verbatim>\<open>/\<close> between the parts.
\<close>

datatype node = File | Dir

type_synonym fs = "string \<Rightarrow> node option"

definition under :: "string \<Rightarrow> string \<Rightarrow> bool" where
  "under d p = prefix (d @ ''/'') p"

text \<open>
  The surroundings of a run: for each path, the error (if any) with which the operating
  system refuses to create, remove or remove recursively (a locked file, a missing
  permission); the monitoring program and what its run leaves on the disk; and what the parser
  finds in the output directory.
\<close>

record world =
  mkdir_fault :: "string \<Rightarrow> string option"
  remove_fault :: "string \<Rightarrow> string option"
  rmtree_fault :: "string \<Rightarrow> string option"
  monitor :: "string list \<Rightarrow> proc_behaviour"
  monitor_effect :: "fs \<Rightarrow> fs"
  glob_output :: "string \<Rightarrow> string \<Rightarrow> string list"
  read_text :: "string \<Rightarrow> string option"
  read_csv :: "string \<Rightarrow> csv_item list option"



text \<open>\<^verbatim>\<open>shutil.rmtree\<close>: removes a directory and everything under it; raises on
  anything else and when the system refuses (the file system is then taken as unchanged).\<close>

definition rmtree :: "world \<Rightarrow> fs \<Rightarrow> string \<Rightarrow> string + fs" where
  "rmtree w f d =
     (case rmtree_fault w d of
        Some e \<Rightarrow> Inl e
      | None \<Rightarrow>
         (case f d of
            Some Dir \<Rightarrow> Inr (\<lambda>p. if p = d \<or> under d p then None else f p)
          | Some File \<Rightarrow> Inl ''Not a directory''
          | None \<Rightarrow> Inl ''No such file or directory''))"

section \<open>parse_results\<close>



section \<open>run_noriben\<close>






definition output_dir_of :: "config \<Rightarrow> string \<Rightarrow> string" where
  "output_dir_of cfg analysis_id = WORK_DIR cfg @ ''/'' @ analysis_id"










section \<open>The cleanup endpoint\<close>

text \<open>The JSON answer with its status code.\<close>

datatype response = Response_ok | Response_error string

definition status_code :: "response \<Rightarrow> nat" where
  "status_code r = (case r of Response_ok \<Rightarrow> 200 | Response_error e \<Rightarrow> 500)"

text \<open>\<^verbatim>\<open>cleanup(analysis_id)\<close>\<close>

definition cleanup :: "config \<Rightarrow> world \<Rightarrow> string \<Rightarrow> fs \<Rightarrow> response \<times> fs" where
  "cleanup cfg w analysis_id f =
     (let output_dir = output_dir_of cfg analysis_id in
      if f output_dir \<noteq> None
      then (case rmtree w f output_dir of
              Inl e \<Rightarrow> (Response_error e, f)
            | Inr f' \<Rightarrow> (Response_ok, f'))
      else (Response_ok, f))"

text \<open>A world in which nothing is refused, the monitoring program never exits, and the
  output directory stays empty; and a file system that holds one uploaded sample.\<close>

definition hanging_world :: world where
  "hanging_world =
     \<lparr>mkdir_fault = (\<lambda>p. None), remove_fault = (\<lambda>p. None), rmtree_fault = (\<lambda>p. None),
      monitor = (\<lambda>cmd. Hangs), monitor_effect = (\<lambda>f. f),
      glob_output = (\<lambda>d pat. []), read_text = (\<lambda>p. None), read_csv = (\<lambda>p. None)\<rparr>"




text \<open>A file system after an analysis: the output directory with one report in it.\<close>

definition with_output :: fs where
  "with_output =
     (\<lambda>p. if p = ''work/a1/Noriben_1.txt'' then Some File
          else if p = ''work/a1'' \<or> p = ''work'' then Some Dir else None)"

section \<open>Properties of the timeline parser\<close>

lemma col_pad: "col (row @ replicate k []) i = col row i"
  by (simp add: col_def nth_append)

lemma loop_process:
  "process_activity (timeline_loop ev items) =
     process_activity ev @ map process_event_of (filter (in_category ''Process'') (rows_read items))"
proof (induction ev items rule: timeline_loop.induct)
  case (3 ev row rest)
  then show ?case by (simp add: handle_row_def in_category_def)
qed simp_all

lemma loop_file:
  "file_system (timeline_loop ev items) =
     file_system ev @ map file_event_of (filter (in_category ''File'') (rows_read items))"
proof (induction ev items rule: timeline_loop.induct)
  case (3 ev row rest)
  then show ?case by (simp add: handle_row_def in_category_def)
qed simp_all

lemma loop_registry:
  "registry (timeline_loop ev items) =
     registry ev @ map registry_event_of (filter (in_category ''Registry'') (rows_read items))"
proof (induction ev items rule: timeline_loop.induct)
  case (3 ev row rest)
  then show ?case by (simp add: handle_row_def in_category_def)
qed simp_all

lemma loop_network:
  "network (timeline_loop ev items) =
     network ev @ map network_event_of (filter (in_category ''Network'') (rows_read items))"
proof (induction ev items rule: timeline_loop.induct)
  case (3 ev row rest)
  then show ?case by (simp add: handle_row_def in_category_def)
qed simp_all

lemma loop_stops_at_error:
  "timeline_loop ev (map Row rows @ Csv_error # rest) = timeline_loop ev (map Row rows)"
  by (induction rows arbitrary: ev) simp_all

lemma loop_append_row:
  "timeline_loop ev (map Row rows @ [Row row]) = handle_row (timeline_loop ev (map Row rows)) row"
  by (induction rows arbitrary: ev) simp_all

lemma rows_read_rows: "rows_read (map Row rows) = rows"
  by (induction rows) simp_all

lemma padded_nth: "i < 10 \<Longrightarrow> padded row ! i = col row i"
  by (auto simp: padded_def col_def nth_append)

lemma col_nth: "3 \<le> length row \<Longrightarrow> col row 0 = row ! 0 \<and> col row 2 = row ! 2"
  by (auto simp: col_def)

lemma takeWhile_no_space:
  "CHR '' '' \<notin> set s \<Longrightarrow> takeWhile (\<lambda>c. c \<noteq> CHR '' '') s = s"
  by (induction s) auto

lemma opt_col_column: "opt_col row i = column row i"
  by (simp add: opt_col_def column_def)

lemma split_first_space_eq:
  "split_first_space s =
     (takeWhile (\<lambda>c. c \<noteq> CHR '' '') s,
      if CHR '' '' \<in> set s then Some (tl (dropWhile (\<lambda>c. c \<noteq> CHR '' '') s)) else None)"
  by (induction s) auto

lemma process_event_spec:
  "3 \<le> length row \<Longrightarrow> process_event_of row = spec_process_event row"
  by (simp add: process_event_of_def spec_process_event_def padded_nth col_nth)

lemma registry_event_spec:
  "3 \<le> length row \<Longrightarrow> registry_event_of row = spec_registry_event row"
  by (simp add: registry_event_of_def spec_registry_event_def padded_nth col_nth)

lemma file_event_spec:
  "3 \<le> length row \<Longrightarrow> file_event_of row = spec_file_event row"
  by (auto simp: file_event_of_def spec_file_event_def padded_nth col_nth opt_col_column
      column_def Let_def)

lemma network_event_spec:
  "3 \<le> length row \<Longrightarrow> network_event_of row = spec_network_event row"
  by (simp add: network_event_of_def spec_network_event_def padded_nth col_nth
      split_first_space_eq split_space1_def takeWhile_no_space Let_def)

lemma map_filter_category:
  assumes "\<And>row. 3 \<le> length row \<Longrightarrow> f row = g row"
  shows "map f (filter (in_category c) rows) = map g (filter (in_category c) rows)"
  using assms by (induction rows) (simp_all add: in_category_def)

lemma loop_skips_short:
  "length short < 3 \<Longrightarrow>
     timeline_loop ev (map Row before @ Row short # after) = timeline_loop ev (map Row before @ after)"
  by (induction before arbitrary: ev) (simp_all add: handle_row_def)

text \<open>
  Claim C6, as amended. For a timeline that the reader yields without error, each of the
  four event lists holds one event for every row of at least 3 fields of its category, in
  the order of the rows: the event of a row has the fields of the row padded with empty
  strings (timestamp, operation, process name, pid, path, data, command line, child pid and
  remote address are the columns of the padded row; protocol and direction are the operation
  split on its first space, the direction \<^verbatim>\<open>Unknown\<close> without a space), except that the
  keys hash_type, hash, yara_hits and vt_hits of a file event are set only when the row has
  columns 7, 8, 9 and 10, and to_path only when the operation is RenameFile and the row has
  column 7. A row of fewer than 3 fields is passed over and the parse goes on as if the row
  were not there. When the reader fails at a record, the result is that of the rows before
  the record.
\<close>

theorem timeline_rows_kept_in_order:
  "parse_csv_timeline (Some (map Row rows)) =
     \<lparr>process_activity = map spec_process_event (filter (in_category ''Process'') rows),
      file_system = map spec_file_event (filter (in_category ''File'') rows),
      registry = map spec_registry_event (filter (in_category ''Registry'') rows),
      network = map spec_network_event (filter (in_category ''Network'') rows)\<rparr>
   \<and> (length short < 3 \<longrightarrow>
        parse_csv_timeline (Some (map Row before @ Row short # after)) =
        parse_csv_timeline (Some (map Row before @ after)))
   \<and> parse_csv_timeline (Some (map Row rows @ Csv_error # rest)) =
       parse_csv_timeline (Some (map Row rows))"
proof -
  let ?ev = "timeline_loop empty_events (map Row rows)"
  have p: "process_activity ?ev = map spec_process_event (filter (in_category ''Process'') rows)"
    using map_filter_category[of process_event_of spec_process_event "''Process''" rows]
    by (simp add: loop_process rows_read_rows empty_events_def process_event_spec)
  have f: "file_system ?ev = map spec_file_event (filter (in_category ''File'') rows)"
    using map_filter_category[of file_event_of spec_file_event "''File''" rows]
    by (simp add: loop_file rows_read_rows empty_events_def file_event_spec)
  have r: "registry ?ev = map spec_registry_event (filter (in_category ''Registry'') rows)"
    using map_filter_category[of registry_event_of spec_registry_event "''Registry''" rows]
    by (simp add: loop_registry rows_read_rows empty_events_def registry_event_spec)
  have n: "network ?ev = map spec_network_event (filter (in_category ''Network'') rows)"
    using map_filter_category[of network_event_of spec_network_event "''Network''" rows]
    by (simp add: loop_network rows_read_rows empty_events_def network_event_spec)
  have 1: "parse_csv_timeline (Some (map Row rows)) =
     \<lparr>process_activity = map spec_process_event (filter (in_category ''Process'') rows),
      file_system = map spec_file_event (filter (in_category ''File'') rows),
      registry = map spec_registry_event (filter (in_category ''Registry'') rows),
      network = map spec_network_event (filter (in_category ''Network'') rows)\<rparr>"
    using p f r n by (simp add: parse_csv_timeline_def)
  have 2: "length short < 3 \<longrightarrow>
        parse_csv_timeline (Some (map Row before @ Row short # after)) =
        parse_csv_timeline (Some (map Row before @ after))"
    by (simp add: parse_csv_timeline_def loop_skips_short)
  have 3: "parse_csv_timeline (Some (map Row rows @ Csv_error # rest)) =
       parse_csv_timeline (Some (map Row rows))"
    by (simp add: parse_csv_timeline_def loop_stops_at_error)
  from 1 2 3 show ?thesis by blast
qed

text \<open>Eight rows, one of two fields: the events of each category come out in file order,
  a short registry row with empty strings for what it lacks, a file row of six columns
  without the optional keys, a network row without a space with the direction
  \<^verbatim>\<open>Unknown\<close>.\<close>

theorem timeline_rows_kept_in_order_witness:
  "parse_csv_timeline (Some (map Row example_rows)) =
     \<lparr>process_activity =
        [\<lparr>pe_timestamp = ''t1'', pe_process_name = ''a.exe'', pe_pid = [], pe_command_line = [],
          pe_child_pid = []\<rparr>,
         \<lparr>pe_timestamp = ''t7'', pe_process_name = ''b.exe'', pe_pid = ''8'',
          pe_command_line = ''b.exe /q'', pe_child_pid = ''9''\<rparr>],
      file_system =
        [\<lparr>fe_timestamp = ''t4'', fe_operation = ''CreateFile'', fe_process_name = ''a.exe'',
          fe_pid = ''7'', fe_path = ''C:/a.txt'', fe_hash_type = None, fe_hash = None,
          fe_yara_hits = None, fe_vt_hits = None, fe_to_path = None\<rparr>,
         \<lparr>fe_timestamp = ''t8'', fe_operation = ''RenameFile'', fe_process_name = ''a.exe'',
          fe_pid = ''7'', fe_path = ''C:/a.txt'', fe_hash_type = Some ''C:/b.txt'',
          fe_hash = Some ''h'', fe_yara_hits = None, fe_vt_hits = None,
          fe_to_path = Some ''C:/b.txt''\<rparr>],
      registry =
        [\<lparr>re_timestamp = ''t3'', re_operation = ''RegSetValue'', re_process_name = [],
          re_pid = [], re_path = [], re_data = []\<rparr>],
      network =
        [\<lparr>ne_timestamp = ''t5'', ne_protocol = ''TCP'', ne_direction = ''Send'',
          ne_process_name = ''a.exe'', ne_pid = ''7'', ne_remote_addr = ''10.0.0.1:80''\<rparr>,
         \<lparr>ne_timestamp = ''t6'', ne_protocol = ''UDP'', ne_direction = ''Unknown'',
          ne_process_name = [], ne_pid = [], ne_remote_addr = []\<rparr>]\<rparr>
   \<and> parse_csv_timeline (Some (map Row [[''t1'', ''Process'', ''CreateProcess'', ''a.exe'']]
         @ Row [''t2'', ''Process''] # [Row [''t4'', ''File'', ''CreateFile'']])) =
     parse_csv_timeline (Some (map Row [[''t1'', ''Process'', ''CreateProcess'', ''a.exe'']]
         @ [Row [''t4'', ''File'', ''CreateFile'']]))"
proof -
  note T = timeline_rows_kept_in_order
    [of example_rows "[''t2'', ''Process'']" "[[''t1'', ''Process'', ''CreateProcess'', ''a.exe'']]"
        "[Row [''t4'', ''File'', ''CreateFile'']]" "[]"]
  have s: "length [''t2'', ''Process''] < 3" by simp
  from T have 1: "parse_csv_timeline (Some (map Row example_rows)) =
     \<lparr>process_activity = map spec_process_event (filter (in_category ''Process'') example_rows),
      file_system = map spec_file_event (filter (in_category ''File'') example_rows),
      registry = map spec_registry_event (filter (in_category ''Registry'') example_rows),
      network = map spec_network_event (filter (in_category ''Network'') example_rows)\<rparr>"
    by blast
  from T s have 2: "parse_csv_timeline (Some (map Row [[''t1'', ''Process'', ''CreateProcess'', ''a.exe'']]
         @ Row [''t2'', ''Process''] # [Row [''t4'', ''File'', ''CreateFile'']])) =
     parse_csv_timeline (Some (map Row [[''t1'', ''Process'', ''CreateProcess'', ''a.exe'']]
         @ [Row [''t4'', ''File'', ''CreateFile'']]))"
    by blast
  have p: "map spec_process_event (filter (in_category ''Process'') example_rows) =
        [\<lparr>pe_timestamp = ''t1'', pe_process_name = ''a.exe'', pe_pid = [], pe_command_line = [],
          pe_child_pid = []\<rparr>,
         \<lparr>pe_timestamp = ''t7'', pe_process_name = ''b.exe'', pe_pid = ''8'',
          pe_command_line = ''b.exe /q'', pe_child_pid = ''9''\<rparr>]"
    by (simp add: example_rows_def in_category_def spec_process_event_def padded_def)
  have f: "map spec_file_event (filter (in_category ''File'') example_rows) =
        [\<lparr>fe_timestamp = ''t4'', fe_operation = ''CreateFile'', fe_process_name = ''a.exe'',
          fe_pid = ''7'', fe_path = ''C:/a.txt'', fe_hash_type = None, fe_hash = None,
          fe_yara_hits = None, fe_vt_hits = None, fe_to_path = None\<rparr>,
         \<lparr>fe_timestamp = ''t8'', fe_operation = ''RenameFile'', fe_process_name = ''a.exe'',
          fe_pid = ''7'', fe_path = ''C:/a.txt'', fe_hash_type = Some ''C:/b.txt'',
          fe_hash = Some ''h'', fe_yara_hits = None, fe_vt_hits = None,
          fe_to_path = Some ''C:/b.txt''\<rparr>]"
    by (simp add: example_rows_def in_category_def spec_file_event_def padded_def column_def)
  have r: "map spec_registry_event (filter (in_category ''Registry'') example_rows) =
        [\<lparr>re_timestamp = ''t3'', re_operation = ''RegSetValue'', re_process_name = [],
          re_pid = [], re_path = [], re_data = []\<rparr>]"
    by (simp add: example_rows_def in_category_def spec_registry_event_def padded_def)
  have n: "map spec_network_event (filter (in_category ''Network'') example_rows) =
        [\<lparr>ne_timestamp = ''t5'', ne_protocol = ''TCP'', ne_direction = ''Send'',
          ne_process_name = ''a.exe'', ne_pid = ''7'', ne_remote_addr = ''10.0.0.1:80''\<rparr>,
         \<lparr>ne_timestamp = ''t6'', ne_protocol = ''UDP'', ne_direction = ''Unknown'',
          ne_process_name = [], ne_pid = [], ne_remote_addr = []\<rparr>]"
    by (simp add: example_rows_def in_category_def spec_network_event_def padded_def)
  from 1 2 show ?thesis unfolding p f r n by blast
qed

text \<open>
  Claim C6 as stated fails. A process row of four fields that comes after a record on which
  the reader fails is not kept, although it has at least 3 fields and a recognised category;
  and a file row of six columns has no hash_type key at all, where the claim has the missing
  field default to the empty string.
\<close>

theorem row_after_error_counterexample:
  "process_activity (parse_csv_timeline (Some
      [Row [''t1'', ''Process'', ''CreateProcess'', ''a.exe''],
       Csv_error,
       Row [''t3'', ''Process'', ''CreateProcess'', ''b.exe'']])) =
     [\<lparr>pe_timestamp = ''t1'', pe_process_name = ''a.exe'', pe_pid = [], pe_command_line = [],
       pe_child_pid = []\<rparr>]
   \<and> in_category ''Process'' [''t3'', ''Process'', ''CreateProcess'', ''b.exe'']
   \<and> map fe_hash_type (file_system (parse_csv_timeline (Some
      [Row [''t4'', ''File'', ''CreateFile'', ''a.exe'', ''7'', ''C:/a.txt'']]))) = [None]"
  by (simp add: parse_csv_timeline_def empty_events_def handle_row_def process_event_of_def
      col_def opt_col_def in_category_def file_event_of_def)

text \<open>
  Claim C5, as amended. The parser has one handler around the whole loop, so an error
  raised by the reader ends the parse: the result holds the events, of every category, of the
  rows before the error, and nothing of any record after it; a file that cannot be opened
  gives four empty lists.
\<close>

theorem reader_error_ends_parse:
  "parse_csv_timeline (Some (map Row rows @ Csv_error # rest)) = parse_csv_timeline (Some (map Row rows))
   \<and> rows_read (map Row rows @ Csv_error # rest) = rows
   \<and> parse_csv_timeline None = empty_events"
proof -
  have "rows_read (map Row rows @ Csv_error # rest) = rows"
    by (induction rows) simp_all
  then show ?thesis
    by (simp add: parse_csv_timeline_def loop_stops_at_error)
qed

text \<open>A process row, a record on which the reader fails, a file row: only the process
  event is returned.\<close>

theorem reader_error_ends_parse_witness:
  "parse_csv_timeline (Some (map Row [[''t1'', ''Process'', ''CreateProcess'', ''a.exe'']] @
      Csv_error # [Row [''t3'', ''File'', ''CreateFile'', ''a.exe'', ''7'', ''C:/a.txt'']])) =
     \<lparr>process_activity = [\<lparr>pe_timestamp = ''t1'', pe_process_name = ''a.exe'', pe_pid = [],
        pe_command_line = [], pe_child_pid = []\<rparr>],
      file_system = [], registry = [], network = []\<rparr>"
  using reader_error_ends_parse
    [of "[[''t1'', ''Process'', ''CreateProcess'', ''a.exe'']]"
        "[Row [''t3'', ''File'', ''CreateFile'', ''a.exe'', ''7'', ''C:/a.txt'']]"]
  by (simp add: parse_csv_timeline_def empty_events_def handle_row_def process_event_of_def col_def)

text \<open>
  Claim C5 as stated fails: with one unreadable record between a process row and a file row
  and a network row, the file and network lists come back empty although the file holds a
  well-formed file row and a well-formed network row.
\<close>

theorem malformed_section_counterexample:
  "file_system (parse_csv_timeline (Some
      [Row [''t1'', ''Process'', ''CreateProcess'', ''a.exe''],
       Csv_error,
       Row [''t3'', ''File'', ''CreateFile'', ''a.exe'', ''7'', ''C:/a.txt''],
       Row [''t4'', ''Network'', ''TCP Send'', ''a.exe'', ''7'', ''10.0.0.1:80'']])) = []
   \<and> network (parse_csv_timeline (Some
      [Row [''t1'', ''Process'', ''CreateProcess'', ''a.exe''],
       Csv_error,
       Row [''t3'', ''File'', ''CreateFile'', ''a.exe'', ''7'', ''C:/a.txt''],
       Row [''t4'', ''Network'', ''TCP Send'', ''a.exe'', ''7'', ''10.0.0.1:80'']])) = []
   \<and> map file_event_of (filter (in_category ''File'') (all_rows
      [Row [''t1'', ''Process'', ''CreateProcess'', ''a.exe''],
       Csv_error,
       Row [''t3'', ''File'', ''CreateFile'', ''a.exe'', ''7'', ''C:/a.txt''],
       Row [''t4'', ''Network'', ''TCP Send'', ''a.exe'', ''7'', ''10.0.0.1:80'']])) =
     [\<lparr>fe_timestamp = ''t3'', fe_operation = ''CreateFile'', fe_process_name = ''a.exe'',
       fe_pid = ''7'', fe_path = ''C:/a.txt'', fe_hash_type = None, fe_hash = None,
       fe_yara_hits = None, fe_vt_hits = None, fe_to_path = None\<rparr>]
   \<and> map network_event_of (filter (in_category ''Network'') (all_rows
      [Row [''t1'', ''Process'', ''CreateProcess'', ''a.exe''],
       Csv_error,
       Row [''t3'', ''File'', ''CreateFile'', ''a.exe'', ''7'', ''C:/a.txt''],
       Row [''t4'', ''Network'', ''TCP Send'', ''a.exe'', ''7'', ''10.0.0.1:80'']])) =
     [\<lparr>ne_timestamp = ''t4'', ne_protocol = ''TCP'', ne_direction = ''Send'',
       ne_process_name = ''a.exe'', ne_pid = ''7'', ne_remote_addr = ''10.0.0.1:80''\<rparr>]"
  by (simp add: parse_csv_timeline_def empty_events_def handle_row_def process_event_of_def
      col_def opt_col_def in_category_def file_event_of_def network_event_of_def split_space1_def)

text \<open>
  Claim C10. For a File row whose operation is RenameFile and that has more than 6 columns,
  the event appended to the file list has both its hash type and its rename destination
  equal to column 7 of the row (index 6).
\<close>

theorem rename_sets_hash_type_and_to_path:
  assumes "length row > 6" and "row ! 1 = ''File''" and "row ! 2 = ''RenameFile''"
  shows "\<exists>e. file_system (parse_csv_timeline (Some (map Row rows @ [Row row]))) =
               file_system (parse_csv_timeline (Some (map Row rows))) @ [e]
             \<and> fe_hash_type e = Some (row ! 6) \<and> fe_to_path e = Some (row ! 6)"
  using assms
  by (simp add: parse_csv_timeline_def loop_append_row handle_row_def file_event_of_def
      opt_col_def Let_def)

text \<open>A rename from a.txt to b.txt: the destination is also the hash type.\<close>

theorem rename_sets_hash_type_and_to_path_witness:
  "file_system (parse_csv_timeline (Some (map Row [] @
      [Row [''t1'', ''File'', ''RenameFile'', ''a.exe'', ''7'', ''C:/a.txt'', ''C:/b.txt'']]))) =
     [\<lparr>fe_timestamp = ''t1'', fe_operation = ''RenameFile'', fe_process_name = ''a.exe'',
       fe_pid = ''7'', fe_path = ''C:/a.txt'', fe_hash_type = Some ''C:/b.txt'', fe_hash = None,
       fe_yara_hits = None, fe_vt_hits = None, fe_to_path = Some ''C:/b.txt''\<rparr>]"
proof -
  have "\<exists>e. file_system (parse_csv_timeline (Some (map Row [] @
      [Row [''t1'', ''File'', ''RenameFile'', ''a.exe'', ''7'', ''C:/a.txt'', ''C:/b.txt'']]))) =
       file_system (parse_csv_timeline (Some (map Row []))) @ [e]
     \<and> fe_hash_type e = Some ([''t1'', ''File'', ''RenameFile'', ''a.exe'', ''7'', ''C:/a.txt'', ''C:/b.txt''] ! 6)
     \<and> fe_to_path e = Some ([''t1'', ''File'', ''RenameFile'', ''a.exe'', ''7'', ''C:/a.txt'', ''C:/b.txt''] ! 6)"
    by (rule rename_sets_hash_type_and_to_path) simp_all
  then show ?thesis
    by (simp add: parse_csv_timeline_def empty_events_def handle_row_def file_event_of_def
      opt_col_def col_def)
qed

section \<open>Properties of the extraction backends and of extract_zip\<close>

lemma invoked_append: "invoked (xs @ ys) = invoked xs @ invoked ys"
  by (simp add: invoked_def)

lemma invoked_run: "invoked (snd (subprocess_run tool cmd t b)) = [cmd]"
  by (simp add: subprocess_run_def invoked_def split: proc_behaviour.splits)

text \<open>
  Claim C3. The claim holds of the specified policy and fails on the code. On an archive
  protected by \<^verbatim>\<open>password\<close>, the last password of the list, with no password supplied,
  the policy of the specification (no password, then the list in order, up to the first
  success) succeeds at the fifth attempt. The in-process backend gives up after the second:
  the wrong password \<^verbatim>\<open>infected\<close> slips through the check byte and fails with
  \<^verbatim>\<open>BadZipFile\<close>, which the loop over the passwords does not catch. Likewise the 7z
  backend gives up after the first attempt on an archive protected by \<^verbatim>\<open>infected\<close> when
  the program's message cannot be decoded, since only the first call asks for text.
\<close>

theorem python_backend_gives_up_early:
  "extract_with_python check_byte_archive None = (False, [None, Some ''infected''])
   \<and> spec_try_in_order (opens_with check_byte_archive) (spec_policy None) =
       (True, [None, Some ''infected'', Some ''malware'', Some ''virus'', Some ''password''])
   \<and> fst (extract_with_7z example_config garbled_7z ''s.zip'' ''work/a1_extracted'' None) = False
   \<and> invoked (snd (extract_with_7z example_config garbled_7z ''s.zip'' ''work/a1_extracted'' None)) =
       [[''7z'', ''x'', ''s.zip'', ''-owork/a1_extracted'', ''-y'', ''-p'']]
   \<and> spec_try_in_order (accepted_by_7z example_config garbled_7z ''s.zip'' ''work/a1_extracted'')
         (spec_policy None) = (True, [None, Some ''infected''])"
  by (simp add: extract_with_python_def check_byte_archive_def truthy_def common_passwords_def
      spec_policy_def opens_with_def extract_with_7z_def cmd_7z_def cmd_with_pwd_7z_def
      subprocess_run_def garbled_7z_def example_config_def invoked_def accepted_by_7z_def
      exits_ok_def invocation_7z_def)

lemma run_killed:
  assumes "Killed c \<in> set (snd (subprocess_run tool cmd t b))"
  shows "subprocess_run tool cmd t b = (TimeoutExpired, [Spawned cmd, Killed c])"
  using assms by (auto simp: subprocess_run_def split: proc_behaviour.splits if_splits)

lemma run_exceeds:
  assumes "exceeds t (tool cmd)"
  shows "subprocess_run tool cmd t b = (TimeoutExpired, [Spawned cmd, Killed cmd])"
  using assms by (auto simp: subprocess_run_def exceeds_def split: proc_behaviour.splits)

lemma run_no_kill:
  assumes "subprocess_run tool cmd t b = (r, evs)" and "r \<noteq> TimeoutExpired"
  shows "Killed c \<notin> set evs"
  using assms by (auto simp: subprocess_run_def split: proc_behaviour.splits if_splits)

lemma run_bounded:
  assumes "subprocess_run tool cmd t b = (r, evs)" and "c \<in> set (invoked evs)" and "exceeds t (tool c)"
  shows "Killed c \<in> set evs"
proof -
  from assms(1) invoked_run[of tool cmd t b] have "invoked evs = [cmd]" by simp
  with assms(2) have "c = cmd" by simp
  with assms(3) run_exceeds[of t tool cmd b] assms(1) show ?thesis by simp
qed

lemma loop_7z_killed:
  assumes "Killed c \<notin> set trace"
    and "Killed c \<in> set (snd (loop_7z cfg tool zp ed pwds trace))"
  shows "\<not> fst (loop_7z cfg tool zp ed pwds trace)
       \<and> last (snd (loop_7z cfg tool zp ed pwds trace)) = Killed c"
  using assms
proof (induction pwds arbitrary: trace)
  case Nil
  then show ?case by simp
next
  case (Cons pwd pwds)
  obtain r evs where run: "subprocess_run tool (cmd_with_pwd_7z cfg zp ed pwd) 30 False = (r, evs)"
    by (cases "subprocess_run tool (cmd_with_pwd_7z cfg zp ed pwd) 30 False")
  show ?case
  proof (cases r)
    case (Completed rc out err)
    with run have nk: "Killed c \<notin> set evs" using run_no_kill by blast
    show ?thesis
    proof (cases "rc = 0")
      case True
      with Completed run nk Cons.prems show ?thesis by simp
    next
      case False
      with Completed run nk Cons.prems Cons.IH[of "trace @ evs"] show ?thesis by simp
    qed
  next
    case TimeoutExpired
    with run Cons.prems have "Killed c \<in> set evs" by simp
    with run run_killed[of c tool "cmd_with_pwd_7z cfg zp ed pwd" 30 False]
    have "evs = [Spawned (cmd_with_pwd_7z cfg zp ed pwd), Killed c]" by simp
    with TimeoutExpired run show ?thesis by simp
  next
    case (OSError e)
    with run have "Killed c \<notin> set evs" using run_no_kill by blast
    with OSError run Cons.prems show ?thesis by simp
  next
    case UnicodeDecodeError
    with run have "Killed c \<notin> set evs" using run_no_kill by blast
    with UnicodeDecodeError run Cons.prems show ?thesis by simp
  qed
qed

lemma extract_with_7z_killed:
  assumes "Killed c \<in> set (snd (extract_with_7z cfg tool zp ed pw))"
  shows "\<not> fst (extract_with_7z cfg tool zp ed pw)
       \<and> last (snd (extract_with_7z cfg tool zp ed pw)) = Killed c"
proof -
  obtain r evs where run: "subprocess_run tool (cmd_7z cfg zp ed pw) 30 True = (r, evs)"
    by (cases "subprocess_run tool (cmd_7z cfg zp ed pw) 30 True")
  show ?thesis
  proof (cases r)
    case (Completed rc out err)
    with run have nk: "Killed c \<notin> set evs" using run_no_kill by blast
    show ?thesis
    proof (cases "rc \<noteq> 0 \<and> \<not> truthy pw")
      case True
      with Completed run assms loop_7z_killed[OF nk, of cfg tool zp ed common_passwords]
      show ?thesis by (simp add: extract_with_7z_def)
    next
      case False
      with Completed run assms nk show ?thesis by (auto simp: extract_with_7z_def)
    qed
  next
    case TimeoutExpired
    with run assms have "Killed c \<in> set evs" by (simp add: extract_with_7z_def)
    with run run_killed[of c tool "cmd_7z cfg zp ed pw" 30 True]
    have "evs = [Spawned (cmd_7z cfg zp ed pw), Killed c]" by simp
    with TimeoutExpired run show ?thesis by (simp add: extract_with_7z_def)
  next
    case (OSError e)
    with run have "Killed c \<notin> set evs" using run_no_kill by blast
    with OSError run assms show ?thesis by (simp add: extract_with_7z_def)
  next
    case UnicodeDecodeError
    with run have "Killed c \<notin> set evs" using run_no_kill by blast
    with UnicodeDecodeError run assms show ?thesis by (simp add: extract_with_7z_def)
  qed
qed

lemma loop_7z_bounded:
  assumes "\<forall>c\<in>set (invoked trace). exceeds 30 (tool c) \<longrightarrow> Killed c \<in> set trace"
  shows "\<forall>c\<in>set (invoked (snd (loop_7z cfg tool zp ed pwds trace))).
           exceeds 30 (tool c) \<longrightarrow> Killed c \<in> set (snd (loop_7z cfg tool zp ed pwds trace))"
  using assms
proof (induction pwds arbitrary: trace)
  case Nil
  then show ?case by simp
next
  case (Cons pwd pwds)
  obtain r evs where run: "subprocess_run tool (cmd_with_pwd_7z cfg zp ed pwd) 30 False = (r, evs)"
    by (cases "subprocess_run tool (cmd_with_pwd_7z cfg zp ed pwd) 30 False")
  have inv: "\<forall>c\<in>set (invoked (trace @ evs)). exceeds 30 (tool c) \<longrightarrow> Killed c \<in> set (trace @ evs)"
    using Cons.prems run_bounded[OF run] by (auto simp: invoked_append)
  show ?case
  proof (cases r)
    case (Completed rc out err)
    then show ?thesis using run inv Cons.IH[OF inv] by (cases "rc = 0") simp_all
  next
    case TimeoutExpired
    then show ?thesis using run inv by simp
  next
    case (OSError e)
    then show ?thesis using run inv by simp
  next
    case UnicodeDecodeError
    then show ?thesis using run inv by simp
  qed
qed

lemma extract_with_7z_bounded:
  "\<forall>c\<in>set (invoked (snd (extract_with_7z cfg tool zp ed pw))).
     exceeds 30 (tool c) \<longrightarrow> Killed c \<in> set (snd (extract_with_7z cfg tool zp ed pw))"
proof -
  obtain r evs where run: "subprocess_run tool (cmd_7z cfg zp ed pw) 30 True = (r, evs)"
    by (cases "subprocess_run tool (cmd_7z cfg zp ed pw) 30 True")
  have inv: "\<forall>c\<in>set (invoked evs). exceeds 30 (tool c) \<longrightarrow> Killed c \<in> set evs"
    using run_bounded[OF run] by blast
  show ?thesis
  proof (cases r)
    case (Completed rc out err)
    then show ?thesis
      using run inv loop_7z_bounded[OF inv, of cfg zp ed common_passwords]
      by (cases "rc = 0"; cases "truthy pw") (simp_all add: extract_with_7z_def)
  next
    case TimeoutExpired
    then show ?thesis using run inv by (simp add: extract_with_7z_def)
  next
    case (OSError e)
    then show ?thesis using run inv by (simp add: extract_with_7z_def)
  next
    case UnicodeDecodeError
    then show ?thesis using run inv by (simp add: extract_with_7z_def)
  qed
qed

lemma loop_7z_timeout_free:
  "loop_7z (cfg\<lparr>ANALYSIS_TIMEOUT := t\<rparr>) tool zp ed pwds trace = loop_7z cfg tool zp ed pwds trace"
  by (induction pwds arbitrary: trace)
     (simp_all add: cmd_with_pwd_7z_def split: prod.splits run_result.splits)

lemma extract_with_7z_timeout_free:
  "extract_with_7z (cfg\<lparr>ANALYSIS_TIMEOUT := t\<rparr>) tool zp ed pw = extract_with_7z cfg tool zp ed pw"
  by (simp add: extract_with_7z_def cmd_7z_def loop_7z_timeout_free
      split: prod.splits run_result.splits)

lemma loop_unzip_killed:
  assumes "Killed c \<notin> set trace"
    and "Killed c \<in> set (snd (loop_unzip cfg tool zp ed pwds trace))"
  shows "\<not> fst (loop_unzip cfg tool zp ed pwds trace)
       \<and> last (snd (loop_unzip cfg tool zp ed pwds trace)) = Killed c"
  using assms
proof (induction pwds arbitrary: trace)
  case Nil
  then show ?case by simp
next
  case (Cons pwd pwds)
  obtain r evs where run: "subprocess_run tool (cmd_with_pwd_unzip cfg zp ed pwd) 30 False = (r, evs)"
    by (cases "subprocess_run tool (cmd_with_pwd_unzip cfg zp ed pwd) 30 False")
  show ?case
  proof (cases r)
    case (Completed rc out err)
    with run have nk: "Killed c \<notin> set evs" using run_no_kill by blast
    show ?thesis
    proof (cases "rc = 0")
      case True
      with Completed run nk Cons.prems show ?thesis by simp
    next
      case False
      with Completed run nk Cons.prems Cons.IH[of "trace @ evs"] show ?thesis by simp
    qed
  next
    case TimeoutExpired
    with run Cons.prems have "Killed c \<in> set evs" by simp
    with run run_killed[of c tool "cmd_with_pwd_unzip cfg zp ed pwd" 30 False]
    have "evs = [Spawned (cmd_with_pwd_unzip cfg zp ed pwd), Killed c]" by simp
    with TimeoutExpired run show ?thesis by simp
  next
    case (OSError e)
    with run have "Killed c \<notin> set evs" using run_no_kill by blast
    with OSError run Cons.prems show ?thesis by simp
  next
    case UnicodeDecodeError
    with run have "Killed c \<notin> set evs" using run_no_kill by blast
    with UnicodeDecodeError run Cons.prems show ?thesis by simp
  qed
qed

lemma extract_with_unzip_killed:
  assumes "Killed c \<in> set (snd (extract_with_unzip cfg tool zp ed pw))"
  shows "\<not> fst (extract_with_unzip cfg tool zp ed pw)
       \<and> last (snd (extract_with_unzip cfg tool zp ed pw)) = Killed c"
proof -
  obtain r evs where run: "subprocess_run tool (cmd_unzip cfg zp ed pw) 30 True = (r, evs)"
    by (cases "subprocess_run tool (cmd_unzip cfg zp ed pw) 30 True")
  show ?thesis
  proof (cases r)
    case (Completed rc out err)
    with run have nk: "Killed c \<notin> set evs" using run_no_kill by blast
    show ?thesis
    proof (cases "rc \<noteq> 0 \<and> \<not> truthy pw")
      case True
      with Completed run assms loop_unzip_killed[OF nk, of cfg tool zp ed common_passwords]
      show ?thesis by (simp add: extract_with_unzip_def)
    next
      case False
      with Completed run assms nk show ?thesis by (auto simp: extract_with_unzip_def)
    qed
  next
    case TimeoutExpired
    with run assms have "Killed c \<in> set evs" by (simp add: extract_with_unzip_def)
    with run run_killed[of c tool "cmd_unzip cfg zp ed pw" 30 True]
    have "evs = [Spawned (cmd_unzip cfg zp ed pw), Killed c]" by simp
    with TimeoutExpired run show ?thesis by (simp add: extract_with_unzip_def)
  next
    case (OSError e)
    with run have "Killed c \<notin> set evs" using run_no_kill by blast
    with OSError run assms show ?thesis by (simp add: extract_with_unzip_def)
  next
    case UnicodeDecodeError
    with run have "Killed c \<notin> set evs" using run_no_kill by blast
    with UnicodeDecodeError run assms show ?thesis by (simp add: extract_with_unzip_def)
  qed
qed

lemma loop_unzip_bounded:
  assumes "\<forall>c\<in>set (invoked trace). exceeds 30 (tool c) \<longrightarrow> Killed c \<in> set trace"
  shows "\<forall>c\<in>set (invoked (snd (loop_unzip cfg tool zp ed pwds trace))).
           exceeds 30 (tool c) \<longrightarrow> Killed c \<in> set (snd (loop_unzip cfg tool zp ed pwds trace))"
  using assms
proof (induction pwds arbitrary: trace)
  case Nil
  then show ?case by simp
next
  case (Cons pwd pwds)
  obtain r evs where run: "subprocess_run tool (cmd_with_pwd_unzip cfg zp ed pwd) 30 False = (r, evs)"
    by (cases "subprocess_run tool (cmd_with_pwd_unzip cfg zp ed pwd) 30 False")
  have inv: "\<forall>c\<in>set (invoked (trace @ evs)). exceeds 30 (tool c) \<longrightarrow> Killed c \<in> set (trace @ evs)"
    using Cons.prems run_bounded[OF run] by (auto simp: invoked_append)
  show ?case
  proof (cases r)
    case (Completed rc out err)
    then show ?thesis using run inv Cons.IH[OF inv] by (cases "rc = 0") simp_all
  next
    case TimeoutExpired
    then show ?thesis using run inv by simp
  next
    case (OSError e)
    then show ?thesis using run inv by simp
  next
    case UnicodeDecodeError
    then show ?thesis using run inv by simp
  qed
qed

lemma extract_with_unzip_bounded:
  "\<forall>c\<in>set (invoked (snd (extract_with_unzip cfg tool zp ed pw))).
     exceeds 30 (tool c) \<longrightarrow> Killed c \<in> set (snd (extract_with_unzip cfg tool zp ed pw))"
proof -
  obtain r evs where run: "subprocess_run tool (cmd_unzip cfg zp ed pw) 30 True = (r, evs)"
    by (cases "subprocess_run tool (cmd_unzip cfg zp ed pw) 30 True")
  have inv: "\<forall>c\<in>set (invoked evs). exceeds 30 (tool c) \<longrightarrow> Killed c \<in> set evs"
    using run_bounded[OF run] by blast
  show ?thesis
  proof (cases r)
    case (Completed rc out err)
    then show ?thesis
      using run inv loop_unzip_bounded[OF inv, of cfg zp ed common_passwords]
      by (cases "rc = 0"; cases "truthy pw") (simp_all add: extract_with_unzip_def)
  next
    case TimeoutExpired
    then show ?thesis using run inv by (simp add: extract_with_unzip_def)
  next
    case (OSError e)
    then show ?thesis using run inv by (simp add: extract_with_unzip_def)
  next
    case UnicodeDecodeError
    then show ?thesis using run inv by (simp add: extract_with_unzip_def)
  qed
qed

lemma loop_unzip_timeout_free:
  "loop_unzip (cfg\<lparr>ANALYSIS_TIMEOUT := t\<rparr>) tool zp ed pwds trace = loop_unzip cfg tool zp ed pwds trace"
  by (induction pwds arbitrary: trace)
     (simp_all add: cmd_with_pwd_unzip_def split: prod.splits run_result.splits)

lemma extract_with_unzip_timeout_free:
  "extract_with_unzip (cfg\<lparr>ANALYSIS_TIMEOUT := t\<rparr>) tool zp ed pw = extract_with_unzip cfg tool zp ed pw"
  by (simp add: extract_with_unzip_def cmd_unzip_def loop_unzip_timeout_free
      split: prod.splits run_result.splits)

text \<open>
  Claim C8, as amended. In the 7z and unzip backends every invocation of the extraction
  program runs under a timeout of 30 time units: an invoked command that takes longer is
  killed. A killed invocation makes the backend return failure, and it is the last thing the
  backend does (no further password is tried). The bound is fixed: changing the analysis
  timeout changes nothing in what the backend does. (The in-process backend sets no time
  bound on its calls.)
\<close>

theorem backend_invocations_bounded:
  "(\<forall>c\<in>set (invoked (snd (extract_with_7z cfg tool zp ed pw))).
      exceeds 30 (tool c) \<longrightarrow> Killed c \<in> set (snd (extract_with_7z cfg tool zp ed pw)))
   \<and> (Killed c \<in> set (snd (extract_with_7z cfg tool zp ed pw)) \<longrightarrow>
        \<not> fst (extract_with_7z cfg tool zp ed pw)
        \<and> last (snd (extract_with_7z cfg tool zp ed pw)) = Killed c)
   \<and> extract_with_7z (cfg\<lparr>ANALYSIS_TIMEOUT := t\<rparr>) tool zp ed pw = extract_with_7z cfg tool zp ed pw
   \<and> (\<forall>c\<in>set (invoked (snd (extract_with_unzip cfg tool zp ed pw))).
      exceeds 30 (tool c) \<longrightarrow> Killed c \<in> set (snd (extract_with_unzip cfg tool zp ed pw)))
   \<and> (Killed c \<in> set (snd (extract_with_unzip cfg tool zp ed pw)) \<longrightarrow>
        \<not> fst (extract_with_unzip cfg tool zp ed pw)
        \<and> last (snd (extract_with_unzip cfg tool zp ed pw)) = Killed c)
   \<and> extract_with_unzip (cfg\<lparr>ANALYSIS_TIMEOUT := t\<rparr>) tool zp ed pw =
       extract_with_unzip cfg tool zp ed pw"
  using extract_with_7z_bounded[of cfg tool zp ed pw] extract_with_7z_killed[of c cfg tool zp ed pw]
    extract_with_7z_timeout_free[where cfg=cfg and t=t and tool=tool and zp=zp and ed=ed and pw=pw]
    extract_with_unzip_bounded[of cfg tool zp ed pw] extract_with_unzip_killed[of c cfg tool zp ed pw]
    extract_with_unzip_timeout_free[where cfg=cfg and t=t and tool=tool and zp=zp and ed=ed and pw=pw]
  by blast

text \<open>A 7z program that rejects the empty password at once and needs 31 time units on
  \<^verbatim>\<open>infected\<close>: the second invocation is killed, the backend fails, nothing follows.\<close>

theorem backend_invocations_bounded_witness:
  "exceeds 30 ((\<lambda>cmd. if last cmd = ''-pinfected'' then Exits 31 0 [] [] else Exits 2 2 [] [])
       [''7z'', ''x'', ''s.zip'', ''-owork/a1_extracted'', ''-y'', ''-pinfected''])
   \<and> Killed [''7z'', ''x'', ''s.zip'', ''-owork/a1_extracted'', ''-y'', ''-pinfected'']
       \<in> set (snd (extract_with_7z
        \<lparr>NORIBEN_PATH = ''Noriben.py'', PYTHON_PATH = ''python'', ANALYSIS_TIMEOUT = 300,
         WORK_DIR = ''work'', UNZIP_TOOL = ''7z'', UNZIP_PATH = ''7z''\<rparr>
        (\<lambda>cmd. if last cmd = ''-pinfected'' then Exits 31 0 [] [] else Exits 2 2 [] [])
        ''s.zip'' ''work/a1_extracted'' None))
   \<and> \<not> fst (extract_with_7z
        \<lparr>NORIBEN_PATH = ''Noriben.py'', PYTHON_PATH = ''python'', ANALYSIS_TIMEOUT = 300,
         WORK_DIR = ''work'', UNZIP_TOOL = ''7z'', UNZIP_PATH = ''7z''\<rparr>
        (\<lambda>cmd. if last cmd = ''-pinfected'' then Exits 31 0 [] [] else Exits 2 2 [] [])
        ''s.zip'' ''work/a1_extracted'' None)
   \<and> last (snd (extract_with_7z
        \<lparr>NORIBEN_PATH = ''Noriben.py'', PYTHON_PATH = ''python'', ANALYSIS_TIMEOUT = 300,
         WORK_DIR = ''work'', UNZIP_TOOL = ''7z'', UNZIP_PATH = ''7z''\<rparr>
        (\<lambda>cmd. if last cmd = ''-pinfected'' then Exits 31 0 [] [] else Exits 2 2 [] [])
        ''s.zip'' ''work/a1_extracted'' None)) =
       Killed [''7z'', ''x'', ''s.zip'', ''-owork/a1_extracted'', ''-y'', ''-pinfected'']
   \<and> invoked (snd (extract_with_7z
        \<lparr>NORIBEN_PATH = ''Noriben.py'', PYTHON_PATH = ''python'', ANALYSIS_TIMEOUT = 300,
         WORK_DIR = ''work'', UNZIP_TOOL = ''7z'', UNZIP_PATH = ''7z''\<rparr>
        (\<lambda>cmd. if last cmd = ''-pinfected'' then Exits 31 0 [] [] else Exits 2 2 [] [])
        ''s.zip'' ''work/a1_extracted'' None)) =
       [[''7z'', ''x'', ''s.zip'', ''-owork/a1_extracted'', ''-y'', ''-p''],
        [''7z'', ''x'', ''s.zip'', ''-owork/a1_extracted'', ''-y'', ''-pinfected'']]"
proof -
  let ?cfg = "\<lparr>NORIBEN_PATH = ''Noriben.py'', PYTHON_PATH = ''python'', ANALYSIS_TIMEOUT = 300,
         WORK_DIR = ''work'', UNZIP_TOOL = ''7z'', UNZIP_PATH = ''7z''\<rparr>"
  let ?tool = "\<lambda>cmd. if last cmd = ''-pinfected'' then Exits 31 0 [] [] else Exits 2 2 [] []"
  let ?c = "[''7z'', ''x'', ''s.zip'', ''-owork/a1_extracted'', ''-y'', ''-pinfected'']"
  have inv: "invoked (snd (extract_with_7z ?cfg ?tool ''s.zip'' ''work/a1_extracted'' None)) =
       [[''7z'', ''x'', ''s.zip'', ''-owork/a1_extracted'', ''-y'', ''-p''], ?c]"
    by (simp add: extract_with_7z_def cmd_7z_def cmd_with_pwd_7z_def truthy_def
        subprocess_run_def common_passwords_def invoked_def)
  have ex: "exceeds 30 (?tool ?c)"
    by (simp add: exceeds_def)
  note T = backend_invocations_bounded[of ?cfg ?tool "''s.zip''" "''work/a1_extracted''" None ?c]
  from T inv ex have k: "Killed ?c \<in> set (snd (extract_with_7z ?cfg ?tool ''s.zip'' ''work/a1_extracted'' None))"
    by simp
  with T have "\<not> fst (extract_with_7z ?cfg ?tool ''s.zip'' ''work/a1_extracted'' None)
      \<and> last (snd (extract_with_7z ?cfg ?tool ''s.zip'' ''work/a1_extracted'' None)) = Killed ?c"
    by blast
  with k inv ex show ?thesis by blast
qed

text \<open>
  Claim C8 as stated fails for the in-process backend: on an archive where each call of
  \<^verbatim>\<open>extractall\<close> takes 1000 time units, the first call is not cut short at 30 units,
  a second attempt is made after it, and the backend reports success.
\<close>

theorem python_backend_unbounded_counterexample:
  "fst (extractall slow_archive None) = 1000
   \<and> extract_with_python slow_archive None = (True, [None, Some ''infected''])"
  by (simp add: extract_with_python_def slow_archive_def truthy_def common_passwords_def)









text \<open>
  The glob patterns match directories as well as files. With a folder named
  \<^verbatim>\<open>pack.scr\<close> that holds the script \<^verbatim>\<open>x.cmd\<close>, the value returned is the folder.
\<close>

lemma glob_returns_directory:
  "fst (extract_zip example_config folder_world ''up.zip'' ''a1'' None) =
     Some ''work/a1_extracted/pack.scr''
   \<and> is_directory folder_world ''work/a1_extracted/pack.scr''
   \<and> \<not> is_directory folder_world ''work/a1_extracted/pack.scr/x.cmd''"
  by (simp add: extract_zip_def example_config_def folder_world_def
      extract_with_python_def truthy_def extract_dir_of_def executable_exts_def glob_ext_def
      suffix_to_prefix)

section \<open>Properties of run_noriben and of the cleanup endpoint\<close>




















text \<open>
  Claim C9. The cleanup endpoint answers success and changes nothing when the output
  directory of the identifier is absent; it removes the directory, with all that is under it,
  and answers success when the directory is there and the system does not refuse; and after
  any call that answered success the directory is absent, so that a second call for the same
  identifier answers success again and leaves the file system as the first call left it.
\<close>

theorem cleanup_idempotent:
  "(f (output_dir_of cfg aid) = None \<longrightarrow> cleanup cfg w aid f = (Response_ok, f))
   \<and> (f (output_dir_of cfg aid) = Some Dir \<and> rmtree_fault w (output_dir_of cfg aid) = None \<longrightarrow>
        fst (cleanup cfg w aid f) = Response_ok
        \<and> snd (cleanup cfg w aid f) (output_dir_of cfg aid) = None
        \<and> (\<forall>q. under (output_dir_of cfg aid) q \<longrightarrow> snd (cleanup cfg w aid f) q = None))
   \<and> (fst (cleanup cfg w aid f) = Response_ok \<longrightarrow>
        snd (cleanup cfg w aid f) (output_dir_of cfg aid) = None
        \<and> cleanup cfg w aid (snd (cleanup cfg w aid f)) = (Response_ok, snd (cleanup cfg w aid f)))
   \<and> status_code Response_ok = 200"
  by (auto simp: cleanup_def rmtree_def Let_def status_code_def
      split: option.splits node.splits sum.splits)


lemma example_paths:
  "output_dir_of example_config ''a1'' = ''work/a1''"
  "extract_dir_of example_config ''a1'' = ''work/a1_extracted''"
  "ANALYSIS_TIMEOUT example_config = 300"
  by (simp_all add: output_dir_of_def extract_dir_of_def example_config_def)

lemma hanging_world_simps:
  "mkdir_fault hanging_world q = None" "remove_fault hanging_world q = None"
  "rmtree_fault hanging_world q = None" "monitor hanging_world c = Hangs"
  "monitor_effect hanging_world f = f"
  by (simp_all add: hanging_world_def)



text \<open>An output directory with one report: the first call removes it, the second call
  finds nothing to remove, both answer success.\<close>

theorem cleanup_idempotent_witness:
  "cleanup example_config hanging_world ''a1'' with_output =
     (Response_ok, (\<lambda>p. if p = ''work'' then Some Dir else None))
   \<and> cleanup example_config hanging_world ''a1'' (\<lambda>p. if p = ''work'' then Some Dir else None) =
     (Response_ok, (\<lambda>p. if p = ''work'' then Some Dir else None))"
proof -
  have d: "with_output (output_dir_of example_config ''a1'') = Some Dir
      \<and> rmtree_fault hanging_world (output_dir_of example_config ''a1'') = None"
    by (simp add: example_paths hanging_world_simps with_output_def)
  have c: "cleanup example_config hanging_world ''a1'' with_output =
     (Response_ok, (\<lambda>p. if p = ''work'' then Some Dir else None))"
    by (auto simp: cleanup_def example_paths hanging_world_simps with_output_def rmtree_def
        under_def fun_eq_iff Let_def)
  note T = cleanup_idempotent[of with_output example_config "''a1''" hanging_world]
  from T d have "fst (cleanup example_config hanging_world ''a1'' with_output) = Response_ok"
    by blast
  with T have "cleanup example_config hanging_world ''a1''
        (snd (cleanup example_config hanging_world ''a1'' with_output)) =
      (Response_ok, snd (cleanup example_config hanging_world ''a1'' with_output))"
    by blast
  with c show ?thesis by simp
qed

end
